theory Spec2Isabelle
  imports Complex_Main "HOL-Library.AList"
begin

section \<open>JavaScript values and numbers\<close>

text \<open>
  A property of a parsed JSON object that is read as a number is absent (\<open>undefined\<close>),
  \<open>null\<close>, or a finite number. Finite numbers are modelled as reals, and the result of
  an operation is the exact one, where the code's is the nearest IEEE double. The two
  agree wherever every intermediate result is a double, as for integers and halves of
  moderate size; elsewhere they can fall on the two sides of a rounding boundary: for the
  temperatures 15 and 15.3 the code's \<open>100 - tempRange * 25\<close> is 92.49999999999999 and
  rounds to 92, where the exact 92.5 rounds to 93. The statements below that evaluate a
  function do so where the doubles are exact. Overflow is not modelled.
\<close>

datatype jsval = Undefined | Null | Num real

text \<open>
  The result of a division can leave the finite numbers: \<open>0 / 0\<close> is \<open>NaN\<close> and
  \<open>x / 0\<close> is an infinity of the sign of \<open>x\<close> (every divisor of the code is a count,
  so a zero divisor is \<open>+0\<close>).
\<close>

datatype jsnum = Fin real | NaN | PosInf | NegInf

fun jdiv :: "jsnum \<Rightarrow> real \<Rightarrow> jsnum" where
  "jdiv (Fin x) d =
     (if d = 0 then (if x = 0 then NaN else if 0 < x then PosInf else NegInf)
      else Fin (x / d))"
| "jdiv NaN d = NaN"
| "jdiv PosInf d = (if 0 \<le> d then PosInf else NegInf)"
| "jdiv NegInf d = (if 0 \<le> d then NegInf else PosInf)"

fun jmul :: "jsnum \<Rightarrow> real \<Rightarrow> jsnum" where
  "jmul (Fin x) k = Fin (x * k)"
| "jmul NaN k = NaN"
| "jmul PosInf k = (if k = 0 then NaN else if 0 < k then PosInf else NegInf)"
| "jmul NegInf k = (if k = 0 then NaN else if 0 < k then NegInf else PosInf)"

text \<open>
  \<open>Math.round\<close> rounds to the nearest integer, a tie towards \<open>+\<infinity>\<close>:
  it is \<open>\<lfloor>x + 1/2\<rfloor>\<close>, which is HOL's \<^const>\<open>round\<close>.
\<close>

fun Math_round :: "jsnum \<Rightarrow> jsnum" where
  "Math_round (Fin x) = Fin (of_int (round x))"
| "Math_round NaN = NaN"
| "Math_round PosInf = PosInf"
| "Math_round NegInf = NegInf"

section \<open>The provider layer (weather fetcher)\<close>

text \<open>
  The three provider implementations (AWS, Azure, GCP) carry the same
  \<open>createAggregatedWeather\<close> and the same shape of \<open>fetchWeatherForLocation\<close> and
  \<open>storeWeatherData\<close>; the names and strings below are those of the AWS one.
\<close>

subsection \<open>Readings and the per-location aggregate\<close>

record 'a metrics =
  temperature :: 'a
  humidity :: 'a
  pressure :: 'a
  windSpeed :: 'a
  windDirection :: 'a
  visibility :: 'a
  cloudiness :: 'a

text \<open>
  What one source fetcher returns. The properties \<open>uvIndex\<close>, \<open>airQuality\<close>,
  \<open>timestamp\<close> and \<open>raw\<close> of a reading are carried along by the code and never read
  by the functions modelled here; they are left out.
\<close>

record reading = "jsval metrics" +
  source :: string
  description :: "string option"

record aggregated_weather = "jsnum metrics" +
  descriptions :: "string list"
  confidence :: jsnum

datatype error = Error string

text \<open>The local variables of the \<open>forEach\<close> loop of \<open>createAggregatedWeather\<close>.\<close>

record accum =
  tempSum :: real
  humiditySum :: real
  pressureSum :: real
  windSpeedSum :: real
  windDirSum :: real
  visibilitySum :: real
  cloudinessSum :: real
  validSources :: nat
  pushed :: "string list"

text \<open>
  \<open>if (v !== undefined) sum += v\<close>: \<open>null\<close> passes the test and adds \<open>0\<close>.
\<close>

fun addIfDefined :: "real \<Rightarrow> jsval \<Rightarrow> real" where
  "addIfDefined s Undefined = s"
| "addIfDefined s Null = s + 0"
| "addIfDefined s (Num x) = s + x"

text \<open>\<open>if (source.description) push\<close>: a non-empty string is truthy.\<close>

fun pushIfTruthy :: "string list \<Rightarrow> string option \<Rightarrow> string list" where
  "pushIfTruthy ds None = ds"
| "pushIfTruthy ds (Some d) = (if d = [] then ds else ds @ [d])"

definition forEachBody :: "accum \<Rightarrow> reading \<Rightarrow> accum" where
  "forEachBody s r =
     s\<lparr> tempSum := addIfDefined (tempSum s) (temperature r),
        validSources := (if temperature r \<noteq> Undefined then validSources s + 1 else validSources s),
        humiditySum := addIfDefined (humiditySum s) (humidity r),
        pressureSum := addIfDefined (pressureSum s) (pressure r),
        windSpeedSum := addIfDefined (windSpeedSum s) (windSpeed r),
        windDirSum := addIfDefined (windDirSum s) (windDirection r),
        visibilitySum := addIfDefined (visibilitySum s) (visibility r),
        cloudinessSum := addIfDefined (cloudinessSum s) (cloudiness r),
        pushed := pushIfTruthy (pushed s) (description r) \<rparr>"

definition initialSums :: accum where
  "initialSums =
     \<lparr> tempSum = 0, humiditySum = 0, pressureSum = 0, windSpeedSum = 0, windDirSum = 0,
       visibilitySum = 0, cloudinessSum = 0, validSources = 0, pushed = [] \<rparr>"

text \<open>
  \<open>sources\<close> is the object \<open>aggregatedData.sources\<close>: one property per source whose
  fetch was fulfilled, in insertion order.
\<close>

definition createAggregatedWeather :: "(string \<times> reading) list \<Rightarrow> error + aggregated_weather" where
  "createAggregatedWeather sources =
     (let sourceCount = length (map fst sources) in
      if sourceCount = 0 then Inl (Error ''No weather data available from any source'')
      else
        let s = foldl forEachBody initialSums (map snd sources);
            n = real (validSources s)
        in Inr \<lparr> temperature = jdiv (Math_round (jmul (jdiv (Fin (tempSum s)) n) 10)) 10,
                 humidity = Math_round (jdiv (Fin (humiditySum s)) n),
                 pressure = Math_round (jdiv (Fin (pressureSum s)) n),
                 windSpeed = jdiv (Math_round (jmul (jdiv (Fin (windSpeedSum s)) n) 10)) 10,
                 windDirection = Math_round (jdiv (Fin (windDirSum s)) n),
                 visibility = Math_round (jdiv (Fin (visibilitySum s)) n),
                 cloudiness = Math_round (jdiv (Fin (cloudinessSum s)) n),
                 descriptions = pushed s,
                 confidence =
                   Math_round (jmul (jdiv (Fin (real (validSources s))) (real sourceCount)) 100) \<rparr>)"

subsection \<open>Fetching one location\<close>

text \<open>A location object \<open>{id, name, lat, lon}\<close>; a request names a location by such an
  object or by a string to geocode.\<close>

record loc =
  loc_id :: string
  loc_name :: string
  lat :: real
  lon :: real

datatype location = ByName string | ByObject loc

record aggregatedData =
  locationId :: string
  locationName :: string
  latitude :: real
  longitude :: real
  timestamp :: string
  cloudProvider :: string
  sources :: "(string \<times> reading) list"
  aggregated :: aggregated_weather

text \<open>The item \<open>storeWeatherData\<close> puts into the table.\<close>

record item =
  location_id :: string
  item_timestamp :: string
  cloud_provider :: string
  location_name :: string
  item_latitude :: real
  item_longitude :: real
  weather_data :: aggregatedData
  ttl :: int

datatype level = LOG | WARN | ERROR

text \<open>The state the fetcher acts on: the table and the console.\<close>

record world =
  db :: "item list"
  console :: "(level \<times> string) list"

text \<open>
  The external collaborators, as the outcome each call has: the geocoder, the three
  source fetchers (at a latitude and a longitude), the table's \<open>put\<close> (\<open>None\<close> when it
  succeeds) and the clock. The API keys are passed through to these calls and nowhere
  else, so they are not modelled.
\<close>

record env =
  geocodeLocation :: "string \<Rightarrow> error + loc"
  fetchOpenWeatherData :: "real \<Rightarrow> real \<Rightarrow> error + reading"
  fetchWeatherAPIData :: "real \<Rightarrow> real \<Rightarrow> error + reading"
  fetchAccuWeatherData :: "real \<Rightarrow> real \<Rightarrow> error + reading"
  dynamodb_put :: "item \<Rightarrow> error option"
  Date_now :: int

definition say :: "level \<Rightarrow> string \<Rightarrow> world \<Rightarrow> world" where
  "say l m w = w\<lparr>console := console w @ [(l, m)]\<rparr>"

fun message :: "error \<Rightarrow> string" where
  "message (Error m) = m"

definition storeWeatherData :: "env \<Rightarrow> aggregatedData \<Rightarrow> world \<Rightarrow> (error + unit) \<times> world" where
  "storeWeatherData e weatherData w =
     (let params =
            \<lparr> location_id = locationId weatherData,
              item_timestamp = timestamp weatherData,
              cloud_provider = ''aws'',
              location_name = locationName weatherData,
              item_latitude = latitude weatherData,
              item_longitude = longitude weatherData,
              weather_data = weatherData,
              ttl = Date_now e div 1000 + 30 * 24 * 60 * 60 \<rparr>
      in case dynamodb_put e params of
           None \<Rightarrow>
             (Inr (), say LOG (''Stored weather data for '' @ locationName weatherData)
                        (w\<lparr>db := db w @ [params]\<rparr>))
         | Some error \<Rightarrow>
             (Inl error, say ERROR (''DynamoDB storage failed: '' @ message error) w))"

text \<open>One settled result: a fulfilled one becomes a property of \<open>sources\<close>, a rejected
  one a warning.\<close>

fun processResult ::
  "string \<Rightarrow> string \<Rightarrow> error + reading \<Rightarrow> (string \<times> reading) list \<times> world
     \<Rightarrow> (string \<times> reading) list \<times> world" where
  "processResult key label (Inr v) (srcs, w) = (AList.update key v srcs, w)"
| "processResult key label (Inl reason) (srcs, w) =
     (srcs, say WARN (label @ '' failed: '' @ message reason) w)"

text \<open>
  The part of \<open>fetchWeatherForLocation\<close> that awaits the three source fetches
  (\<open>Promise.allSettled\<close>: every one is awaited, none aborts another) and fills
  \<open>aggregatedData.sources\<close>.
\<close>

definition settleSources ::
  "env \<Rightarrow> loc \<Rightarrow> world \<Rightarrow> (string \<times> reading) list \<times> world" where
  "settleSources e l w =
     (let weatherResults =
            [fetchOpenWeatherData e (lat l) (lon l),
             fetchWeatherAPIData e (lat l) (lon l),
             fetchAccuWeatherData e (lat l) (lon l)]
      in processResult ''accuweather'' ''AccuWeather API'' (weatherResults ! 2)
           (processResult ''weatherapi'' ''WeatherAPI'' (weatherResults ! 1)
             (processResult ''openweather'' ''OpenWeather API'' (weatherResults ! 0) ([], w))))"

text \<open>The rest of \<open>fetchWeatherForLocation\<close>, once the coordinates are known. Neither
  call is wrapped in a \<open>try\<close>: an error of \<open>createAggregatedWeather\<close> or of
  \<open>storeWeatherData\<close> is the outcome of the fetch.\<close>

definition fetchAndAggregate ::
  "env \<Rightarrow> loc \<Rightarrow> string \<Rightarrow> world \<Rightarrow> (error + aggregatedData) \<times> world" where
  "fetchAndAggregate e l ts w =
     (case settleSources e l w of
        (srcs, w1) \<Rightarrow>
          (case createAggregatedWeather srcs of
             Inl error \<Rightarrow> (Inl error, w1)
           | Inr agg \<Rightarrow>
               (let d = \<lparr> locationId = loc_id l, locationName = loc_name l,
                          latitude = lat l, longitude = lon l, timestamp = ts,
                          cloudProvider = ''aws'', sources = srcs, aggregated = agg \<rparr>
                in case storeWeatherData e d w1 of
                     (Inl error, w2) \<Rightarrow> (Inl error, w2)
                   | (Inr u, w2) \<Rightarrow> (Inr d, w2))))"

text \<open>\<open>location.name || location\<close>, as the template string prints it: a string has no
  \<open>name\<close>, an object with an empty name prints as an object.\<close>

fun nameOrLocation :: "location \<Rightarrow> string" where
  "nameOrLocation (ByName name) = name"
| "nameOrLocation (ByObject l) = (if loc_name l = [] then ''[object Object]'' else loc_name l)"

definition fetchWeatherForLocation ::
  "env \<Rightarrow> location \<Rightarrow> string \<Rightarrow> world \<Rightarrow> (error + aggregatedData) \<times> world" where
  "fetchWeatherForLocation e location ts w =
     (let w0 = say LOG (''Fetching weather for '' @ nameOrLocation location) w
      in case location of
           ByName name \<Rightarrow>
             (case geocodeLocation e name of
                Inl error \<Rightarrow> (Inl error, w0)
              | Inr geoData \<Rightarrow> fetchAndAggregate e geoData ts w0)
         | ByObject l \<Rightarrow> fetchAndAggregate e l ts w0)"

section \<open>The aggregation layer (cross-cloud)\<close>

subsection \<open>Data points\<close>

text \<open>
  A provider's \<open>aggregated\<close> object arrives as parsed JSON (a Lambda payload, an HTTP
  body, a table item): its numeric properties are read by name (\<open>point[metric]\<close>) and are
  absent, \<open>null\<close> (what JSON makes of \<open>NaN\<close>) or a finite number. The string tags
  \<open>provider\<close> and \<open>source\<close> that the code adds to a data point are never read back.
\<close>

type_synonym obj = "string \<Rightarrow> jsval"

definition emptyObject :: obj where
  "emptyObject = (\<lambda>key. Undefined)"

definition metrics :: "string list" where
  "metrics = [''temperature'', ''humidity'', ''pressure'', ''windSpeed'', ''cloudiness'']"

text \<open>
  The number an arithmetic operator or \<open>Math.max\<close> reads from a value: \<open>null\<close> is \<open>0\<close>.
  \<open>undefined\<close> would be \<open>NaN\<close>; every use below has filtered it out before, so the
  equation is left out.
\<close>

fun toNumber :: "jsval \<Rightarrow> real" where
  "toNumber (Num x) = x"
| "toNumber Null = 0"

text \<open>\<open>dataPoints.map(point => point[metric]).filter(val => val !== undefined && val !== null)\<close>\<close>

definition metricValues :: "obj list \<Rightarrow> string \<Rightarrow> real list" where
  "metricValues dataPoints metric =
     map toNumber
       (filter (\<lambda>val. val \<noteq> Undefined \<and> val \<noteq> Null) (map (\<lambda>point. point metric) dataPoints))"

text \<open>\<open>dataPoints.map(point => point.temperature).filter(val => val !== undefined)\<close>:
  a \<open>null\<close> temperature stays in the list.\<close>

definition tempValues :: "obj list \<Rightarrow> real list" where
  "tempValues dataPoints =
     map toNumber
       (filter (\<lambda>val. val \<noteq> Undefined) (map (\<lambda>point. point ''temperature'') dataPoints))"

subsection \<open>Consensus, variation, reliability, agreement, freshness\<close>

definition calculateConsensus :: "obj list \<Rightarrow> obj" where
  "calculateConsensus dataPoints =
     (if length dataPoints = 0 then emptyObject
      else
        foldl (\<lambda>consensus metric.
                 let values = metricValues dataPoints metric in
                 if length values > 0
                 then consensus(metric :=
                        Num (of_int (round (foldl (\<lambda>sum val. sum + val) 0 values
                                             / real (length values) * 100)) / 100))
                 else consensus)
          emptyObject metrics)"


record reliability =
  dataAvailability :: real
  temperatureAgreement :: "real option"
  overall :: int

text \<open>\<open>x || 100\<close> on a property that is absent or a number: an absent one and a zero are
  both falsy.\<close>

fun orElse :: "real option \<Rightarrow> real \<Rightarrow> real" where
  "orElse None d = d"
| "orElse (Some x) d = (if x = 0 then d else x)"

text \<open>
  \<open>totalProviders\<close> is \<open>providers.length\<close> at the only call, which is positive there
  (the aggregation has thrown otherwise).
\<close>

definition calculateReliability :: "obj list \<Rightarrow> nat \<Rightarrow> reliability" where
  "calculateReliability dataPoints totalProviders =
     (let availability = real (length dataPoints) / real totalProviders * 100;
          agreement =
            (if length dataPoints > 1
             then
               let temps = tempValues dataPoints in
               if length temps > 1
               then
                 let maxTemp = Max (set temps);
                     minTemp = Min (set temps);
                     tempRange = maxTemp - minTemp
                 in Some (max 0 (100 - tempRange * 25))
               else None
             else None)
      in \<lparr> dataAvailability = availability,
           temperatureAgreement = agreement,
           overall = round ((availability + orElse agreement 100) / 2) \<rparr>)"

definition calculateAgreement :: "obj list \<Rightarrow> int" where
  "calculateAgreement dataPoints =
     (if length dataPoints \<le> 1 then 100
      else
        let temps = tempValues dataPoints in
        if length temps \<le> 1 then 100
        else
          let maxTemp = Max (set temps);
              minTemp = Min (set temps);
              tempRange = maxTemp - minTemp
          in max 0 (round (100 - tempRange * 25)))"

text \<open>
  What one provider fetch resolves to: \<open>{source, data, timestamp}\<close>, where \<open>data\<close> is an
  array of per-location items or a single item. An item's \<open>aggregated\<close> is an object or
  missing.
\<close>

record weather_item =
  i_locationId :: "string option"
  i_locationName :: "string option"
  i_latitude :: jsval
  i_longitude :: jsval
  i_aggregated :: "obj option"
  i_timestamp :: "string option"

datatype payload = Array "weather_item list" | Single weather_item

text \<open>A property that holds a date as text: absent, \<open>null\<close> or a string.\<close>

datatype jsstr = Absent | NullStr | Str string

record cloud_entry =
  entry_source :: string
  data :: payload
  entry_timestamp :: jsstr

text \<open>
  \<open>new Date(x)\<close>, as its time value in milliseconds: \<open>None\<close> is an invalid date
  (\<open>getTime()\<close> is \<open>NaN\<close>). Parsing a string is the platform's, a parameter here;
  \<open>new Date(undefined)\<close> is invalid and \<open>new Date(null)\<close> is the epoch.
\<close>

fun newDate :: "(string \<Rightarrow> int option) \<Rightarrow> jsstr \<Rightarrow> int option" where
  "newDate parse Absent = None"
| "newDate parse NullStr = Some 0"
| "newDate parse (Str s) = parse s"

text \<open>
  \<open>Object.values(cloudData)\<close> are the providers' entries. The order they are listed in
  does not matter to a sum and a count, so they are taken in insertion order here.
\<close>

definition calculateDataFreshness ::
  "(string \<Rightarrow> int option) \<Rightarrow> int \<Rightarrow> (string \<times> cloud_entry) list \<Rightarrow> string" where
  "calculateDataFreshness parse now cloudData =
     (let timestamps =
            map the (filter (\<lambda>date. date \<noteq> None)
                       (map (\<lambda>provider. newDate parse (entry_timestamp provider))
                          (map snd cloudData)))
      in if length timestamps = 0 then ''unknown''
         else
           let averageAge =
                 real_of_int (foldl (\<lambda>sum timestamp. sum + (now - timestamp)) 0 timestamps)
                   / real (length timestamps);
               minutes = round (averageAge / (1000 * 60))
           in if minutes < 5 then ''very-fresh''
              else if minutes < 15 then ''fresh''
              else if minutes < 60 then ''moderate''
              else ''stale'')"

subsection \<open>The cross-cloud aggregation\<close>

record provider_datum =
  provider :: string
  pdata :: obj
  ptimestamp :: "string option"

record location_entry =
  l_locationId :: "string option"
  l_locationName :: "string option"
  l_latitude :: jsval
  l_longitude :: jsval
  providers :: "provider_datum list"

record location_result = location_entry +
  l_consensus :: obj
  l_variations :: obj
  agreement :: int

record summary =
  totalLocations :: nat
  averageTemperature :: jsval
  temperatureRange :: jsval
  overallReliability :: "int option"
  dataFreshness :: string

record aggregation =
  agg_timestamp :: string
  cloudProviders :: "string list"
  dataPoints :: nat
  consensus :: obj
  variations :: obj
  reliability_scores :: "reliability option"
  locations :: "location_result list"
  agg_summary :: summary
  rawData :: "(string \<times> cloud_entry) list option"



text \<open>
  The code keeps three dictionaries in plain objects: \<open>cloudData\<close> and \<open>errors\<close>, keyed
  by provider, and \<open>locationData\<close>, keyed by location. Such an object is an association
  list of its own properties in insertion order, with what the language adds to it:
  \<^item> \<open>Object.keys\<close> and \<open>Object.values\<close> list the keys that are array indices first, in
    ascending numeric order, and the other keys after them, in insertion order;
  \<^item> reading \<open>object[key]\<close> for a key the object does not own finds the properties of
    \<open>Object.prototype\<close>;
  \<^item> assigning to \<open>object['__proto__']\<close> sets the prototype, or does nothing, and
    makes no property.
\<close>

definition isDigit :: "char \<Rightarrow> bool" where
  "isDigit c = (let n = of_char c :: nat in 48 \<le> n \<and> n \<le> 57)"

definition indexValue :: "string \<Rightarrow> int" where
  "indexValue s = foldl (\<lambda>n c. 10 * n + (of_char c - 48)) 0 s"

text \<open>An array index is a decimal numeral without a leading zero, below \<open>2\<^sup>3\<^sup>2 - 1\<close>.\<close>

definition isArrayIndex :: "string \<Rightarrow> bool" where
  "isArrayIndex s =
     (case s of
        [] \<Rightarrow> False
      | c # cs \<Rightarrow>
          list_all isDigit s \<and> (c \<noteq> CHR ''0'' \<or> cs = []) \<and> indexValue s < 4294967295)"

definition ownEntries :: "(string \<times> 'a) list \<Rightarrow> (string \<times> 'a) list" where
  "ownEntries kvs =
     sort_key (\<lambda>kv. indexValue (fst kv)) (filter (\<lambda>kv. isArrayIndex (fst kv)) kvs) @
     filter (\<lambda>kv. \<not> isArrayIndex (fst kv)) kvs"

definition Object_keys :: "(string \<times> 'a) list \<Rightarrow> string list" where
  "Object_keys kvs = map fst (ownEntries kvs)"


definition prototypeKeys :: "string list" where
  "prototypeKeys =
     [''constructor'', ''__defineGetter__'', ''__defineSetter__'', ''hasOwnProperty'',
      ''__lookupGetter__'', ''__lookupSetter__'', ''isPrototypeOf'', ''propertyIsEnumerable'',
      ''toString'', ''valueOf'', ''__proto__'', ''toLocaleString'']"


text \<open>The \<open>TypeError\<close> of \<open>undefined.push(...)\<close>, with the message of the current
  runtime.\<close>

definition pushOfUndefined :: error where
  "pushOfUndefined =
     Error (''Cannot read properties of undefined (reading '' @ [CHR 0x27] @ ''push'' @
            [CHR 0x27] @ '')'')"

text \<open>
  \<open>if (!locationData[key]) locationData[key] = {...}; locationData[key].providers.push(...)\<close>.
  For a key that names a property of \<open>Object.prototype\<close> the test finds that property, no
  entry is made, and \<open>providers\<close> is undefined.
\<close>

definition addProvider ::
  "string \<Rightarrow> weather_item \<Rightarrow> string \<Rightarrow> obj \<Rightarrow> (string \<times> location_entry) list
     \<Rightarrow> error + (string \<times> location_entry) list" where
  "addProvider key item prov agg locationData =
     (if key \<in> set prototypeKeys then Inl pushOfUndefined
      else
        let created =
              (if map_of locationData key = None
               then locationData @
                      [(key, \<lparr> l_locationId = i_locationId item,
                                l_locationName = i_locationName item,
                                l_latitude = i_latitude item,
                                l_longitude = i_longitude item,
                                providers = [] \<rparr>)]
               else locationData)
        in Inr (AList.map_entry key
                  (\<lambda>entry. entry\<lparr>providers := providers entry @
                     [\<lparr> provider = prov, pdata = agg, ptimestamp = i_timestamp item \<rparr>]\<rparr>)
                  created))"






subsection \<open>The aggregation handler\<close>





text \<open>A string in a condition: \<open>undefined\<close> and the empty string are falsy.\<close>

fun truthy :: "string option \<Rightarrow> bool" where
  "truthy None = False"
| "truthy (Some s) = (s \<noteq> [])"


record success_body =
  s_timestamp :: string
  executionTimeMs :: int
  s_cloudProviders :: "string list"
  failedProviders :: "string list"
  s_location :: string
  aggregatedData :: aggregation
  errors :: "(string \<times> string) list option"






section \<open>The dashboard's aggregation route\<close>

record mock_consensus =
  mc_temperature :: real
  mc_humidity :: real
  mc_description :: string
  mc_windSpeed :: real
  mc_pressure :: real
  mc_precipitation :: real
  mc_sunrise :: string
  mc_sunset :: string

record mock_location =
  m_locationId :: string
  m_locationName :: string
  m_lat :: real
  m_lon :: real
  m_agreement :: int
  m_consensus :: mock_consensus
  m_providers :: "string list"

text \<open>What the route sends as \<open>aggregatedData\<close>: the service's aggregation, or an object
  with nothing but a list of locations.\<close>

datatype route_data = Aggregated aggregation | LocationsOnly "mock_location list"

record route_body =
  rb_error :: "string option"
  rb_aggregatedData :: "route_data option"
  rb_cloudProviders :: "string list option"
  rb_executionTimeMs :: "int option"
  rb_timestamp :: "string option"

text \<open>The JSON the aggregation service answers with, as far as the route reads it.\<close>

record service_data =
  d_aggregatedData :: "aggregation option"
  d_cloudProviders :: "string list option"
  d_executionTimeMs :: "int option"
  d_timestamp :: "string option"

text \<open>
  What \<open>response.json()\<close> makes of the body: it rejects (the body is not JSON), or it
  resolves to \<open>null\<close>, to a value that has none of the properties the route reads (a
  number, a string, a boolean, an array), or to an object.
\<close>

datatype json_body = NotJson | JsonNull | JsonOther | JsonObject service_data

text \<open>The outcome of \<open>fetch\<close>: it rejects, or resolves to a response with a status and
  a body.\<close>

datatype fetch_outcome = Rejected error | Resolved nat json_body

record route_env =
  AGGREGATION_LAMBDA_URL :: "string option"
  fetched :: fetch_outcome
  nowISO :: string

text \<open>\<open>response.ok\<close>\<close>

definition ok :: "nat \<Rightarrow> bool" where
  "ok status = (200 \<le> status \<and> status \<le> 299)"

text \<open>\<open>location.toLowerCase().replace(/[^a-z0-9]/g, '-')\<close>, for a location name in ASCII.\<close>

definition toLowerCase :: "char \<Rightarrow> char" where
  "toLowerCase c =
     (let n = of_char c :: nat in if 65 \<le> n \<and> n \<le> 90 then char_of (n + 32) else c)"

definition dashed :: "char \<Rightarrow> char" where
  "dashed c =
     (let n = of_char c :: nat
      in if (97 \<le> n \<and> n \<le> 122) \<or> (48 \<le> n \<and> n \<le> 57) then c else CHR ''-'')"

definition mockData :: "string \<Rightarrow> string \<Rightarrow> route_body" where
  "mockData location now =
     \<lparr> rb_error = Some ''All cloud providers are currently unavailable'',
       rb_aggregatedData = Some (LocationsOnly
         [\<lparr> m_locationId = map dashed (map toLowerCase location),
            m_locationName = location,
            m_lat = 40.7128,
            m_lon = - 74.0060,
            m_agreement = 0,
            m_consensus =
              \<lparr> mc_temperature = 20, mc_humidity = 65,
                mc_description = ''Service Unavailable'', mc_windSpeed = 0,
                mc_pressure = 1013, mc_precipitation = 0,
                mc_sunrise = ''6:18 AM'', mc_sunset = ''7:27 PM'' \<rparr>,
            m_providers = [] \<rparr>]),
       rb_cloudProviders = Some [],
       rb_executionTimeMs = Some 0,
       rb_timestamp = Some now \<rparr>"

text \<open>\<open>x || d\<close> on an optional number: an absent one and a zero are falsy.\<close>

fun orZero :: "int option \<Rightarrow> int" where
  "orZero None = 0"
| "orZero (Some n) = n"

definition noProperties :: service_data where
  "noProperties =
     \<lparr> d_aggregatedData = None, d_cloudProviders = None,
       d_executionTimeMs = None, d_timestamp = None \<rparr>"

text \<open>The answer of the route to a body it could read, with the defaults of \<open>||\<close>.\<close>

definition relay :: "route_env \<Rightarrow> service_data \<Rightarrow> nat \<times> route_body" where
  "relay e d =
     (200, \<lparr> rb_error = None,
             rb_aggregatedData =
               Some (case d_aggregatedData d of
                       Some a \<Rightarrow> Aggregated a
                     | None \<Rightarrow> LocationsOnly []),
             rb_cloudProviders =
               Some (case d_cloudProviders d of Some ps \<Rightarrow> ps | None \<Rightarrow> []),
             rb_executionTimeMs = Some (orZero (d_executionTimeMs d)),
             rb_timestamp =
               Some (case d_timestamp d of
                       Some t \<Rightarrow> if t = [] then nowISO e else t
                     | None \<Rightarrow> nowISO e) \<rparr>)"

text \<open>
  Everything after the test of the location runs inside the \<open>try\<close>: a rejected
  \<open>fetch\<close>, a response that is not \<open>ok\<close>, a body that is not JSON and a \<open>null\<close> body
  (reading a property of \<open>null\<close> throws) all end in the \<open>catch\<close>.
\<close>

definition GET :: "route_env \<Rightarrow> string option \<Rightarrow> nat \<times> route_body" where
  "GET e location =
     (if \<not> truthy location
      then (400, \<lparr> rb_error = Some ''Location parameter is required'',
                   rb_aggregatedData = None, rb_cloudProviders = None,
                   rb_executionTimeMs = None, rb_timestamp = None \<rparr>)
      else if \<not> truthy (AGGREGATION_LAMBDA_URL e)
      then (503, \<lparr> rb_error = Some ''Aggregation service not configured'',
                   rb_aggregatedData = Some (LocationsOnly []),
                   rb_cloudProviders = Some [],
                   rb_executionTimeMs = Some 0,
                   rb_timestamp = Some (nowISO e) \<rparr>)
      else
        (case fetched e of
           Rejected error \<Rightarrow> (503, mockData (the location) (nowISO e))
         | Resolved status parsed \<Rightarrow>
             if \<not> ok status then (503, mockData (the location) (nowISO e))
             else
               (case parsed of
                  NotJson \<Rightarrow> (503, mockData (the location) (nowISO e))
                | JsonNull \<Rightarrow> (503, mockData (the location) (nowISO e))
                | JsonOther \<Rightarrow> relay e noProperties
                | JsonObject d \<Rightarrow> relay e d)))"


section \<open>Notions of the specification\<close>

text \<open>The number of fulfilled sources that supplied a temperature, by the code's own
  test (\<open>source.temperature !== undefined\<close>).\<close>

definition suppliedTemperature :: "(string \<times> reading) list \<Rightarrow> nat" where
  "suppliedTemperature srcs =
     length (filter (\<lambda>r. temperature r \<noteq> Undefined) (map snd srcs))"

fun isFinite :: "jsnum \<Rightarrow> bool" where
  "isFinite (Fin x) = True"
| "isFinite NaN = False"
| "isFinite PosInf = False"
| "isFinite NegInf = False"

text \<open>The coordinates a request is fetched at: the geocoder's answer for a name, the
  object itself otherwise.\<close>

definition resolved :: "env \<Rightarrow> location \<Rightarrow> loc \<Rightarrow> bool" where
  "resolved e location l =
     (case location of ByName name \<Rightarrow> geocodeLocation e name = Inr l | ByObject l' \<Rightarrow> l' = l)"



text \<open>The observation times that parse, and the average age of the data in minutes.\<close>

definition parsableTimestamps ::
  "(string \<Rightarrow> int option) \<Rightarrow> (string \<times> cloud_entry) list \<Rightarrow> int list" where
  "parsableTimestamps parse cloudData =
     concat (map (\<lambda>provider. case newDate parse (entry_timestamp provider) of
                                 None \<Rightarrow> [] | Some t \<Rightarrow> [t]) (map snd cloudData))"

definition averageAgeMinutes ::
  "(string \<Rightarrow> int option) \<Rightarrow> int \<Rightarrow> (string \<times> cloud_entry) list \<Rightarrow> real" where
  "averageAgeMinutes parse now cloudData =
     real_of_int (\<Sum>t\<leftarrow>parsableTimestamps parse cloudData. now - t)
       / real (length (parsableTimestamps parse cloudData)) / 60000"

section \<open>Sample data\<close>

definition sampleReading :: "string \<Rightarrow> jsval \<Rightarrow> reading" where
  "sampleReading name t =
     \<lparr> temperature = t, humidity = Num 60, pressure = Num 1013, windSpeed = Num 3,
       windDirection = Num 180, visibility = Num 10, cloudiness = Num 40,
       source = name, description = Some ''clear sky'' \<rparr>"

definition newYork :: loc where
  "newYork = \<lparr> loc_id = ''new-york'', loc_name = ''New York'', lat = 40.7128, lon = - 74.0060 \<rparr>"

definition emptyWorld :: world where
  "emptyWorld = \<lparr> db = [], console = [] \<rparr>"

definition sampleEnv ::
  "(error + reading) \<Rightarrow> (error + reading) \<Rightarrow> (error + reading) \<Rightarrow> error option \<Rightarrow> env" where
  "sampleEnv r1 r2 r3 p =
     \<lparr> geocodeLocation = (\<lambda>name. Inl (Error (''Location not found: '' @ name))),
       fetchOpenWeatherData = (\<lambda>la lo. r1),
       fetchWeatherAPIData = (\<lambda>la lo. r2),
       fetchAccuWeatherData = (\<lambda>la lo. r3),
       dynamodb_put = (\<lambda>i. p),
       Date_now = 1704067200000 \<rparr>"

definition tempPoint :: "real \<Rightarrow> obj" where
  "tempPoint t = emptyObject(''temperature'' := Num t)"

definition nullTemperature :: obj where
  "nullTemperature = emptyObject(''temperature'' := Null)"


definition sampleParse :: "string \<Rightarrow> int option" where
  "sampleParse s = (if s = ''2024-01-01T00:00:00.000Z'' then Some 1704067200000 else None)"

definition sampleEntry :: "string option \<Rightarrow> cloud_entry" where
  "sampleEntry ts =
     \<lparr> entry_source = ''aws-lambda'', data = Array [],
       entry_timestamp = (case ts of None \<Rightarrow> Absent | Some s \<Rightarrow> Str s) \<rparr>"



section \<open>The per-location aggregate\<close>

subsection \<open>The loop\<close>

lemma forEachBody_sel:
  "tempSum (forEachBody s r) = addIfDefined (tempSum s) (temperature r)"
  "validSources (forEachBody s r) =
     (if temperature r \<noteq> Undefined then validSources s + 1 else validSources s)"
  "humiditySum (forEachBody s r) = addIfDefined (humiditySum s) (humidity r)"
  "pressureSum (forEachBody s r) = addIfDefined (pressureSum s) (pressure r)"
  "windSpeedSum (forEachBody s r) = addIfDefined (windSpeedSum s) (windSpeed r)"
  "windDirSum (forEachBody s r) = addIfDefined (windDirSum s) (windDirection r)"
  "visibilitySum (forEachBody s r) = addIfDefined (visibilitySum s) (visibility r)"
  "cloudinessSum (forEachBody s r) = addIfDefined (cloudinessSum s) (cloudiness r)"
  "pushed (forEachBody s r) = pushIfTruthy (pushed s) (description r)"
  by (simp_all add: forEachBody_def)

lemma addIfDefined_0: "addIfDefined s v = s + addIfDefined 0 v"
  by (cases v) simp_all

lemma validSources_foldl:
  "validSources (foldl forEachBody s rs) =
     validSources s + length (filter (\<lambda>r. temperature r \<noteq> Undefined) rs)"
  by (induction rs arbitrary: s) (simp_all add: forEachBody_sel)

lemma tempSum_foldl:
  "tempSum (foldl forEachBody s rs) = tempSum s + (\<Sum>r\<leftarrow>rs. addIfDefined 0 (temperature r))"
proof (induction rs arbitrary: s)
  case Nil
  show ?case by simp
next
  case (Cons r rs)
  show ?case
    using addIfDefined_0[of "tempSum s" "temperature r"] by (simp add: Cons forEachBody_sel)
qed

lemma visibilitySum_foldl:
  "visibilitySum (foldl forEachBody s rs) =
     visibilitySum s + (\<Sum>r\<leftarrow>rs. addIfDefined 0 (visibility r))"
proof (induction rs arbitrary: s)
  case Nil
  show ?case by simp
next
  case (Cons r rs)
  show ?case
    using addIfDefined_0[of "visibilitySum s" "visibility r"] by (simp add: Cons forEachBody_sel)
qed

lemma validSources_total:
  "validSources (foldl forEachBody initialSums (map snd srcs)) = suppliedTemperature srcs"
  by (simp add: validSources_foldl initialSums_def suppliedTemperature_def)

lemma tempSum_total:
  "tempSum (foldl forEachBody initialSums (map snd srcs)) =
     (\<Sum>r\<leftarrow>map snd srcs. addIfDefined 0 (temperature r))"
  by (simp add: tempSum_foldl initialSums_def)

lemma visibilitySum_total:
  "visibilitySum (foldl forEachBody initialSums (map snd srcs)) =
     (\<Sum>r\<leftarrow>map snd srcs. addIfDefined 0 (visibility r))"
  by (simp add: visibilitySum_foldl initialSums_def)

lemma createAggregatedWeather_empty:
  "createAggregatedWeather [] = Inl (Error ''No weather data available from any source'')"
  by (simp add: createAggregatedWeather_def)

lemma createAggregatedWeather_confidence:
  assumes "srcs \<noteq> []"
  shows "\<exists>a. createAggregatedWeather srcs = Inr a \<and>
     confidence a =
       Fin (of_int (round (100 * real (suppliedTemperature srcs) / real (length srcs))))"
  using assms
  by (simp add: createAggregatedWeather_def Let_def validSources_total mult.commute)

subsection \<open>Confidence\<close>

text \<open>
  Claim C1, as the code has it. \<open>createAggregatedWeather\<close> receives the fulfilled
  sources only, so the confidence is the share of the fulfilled sources that supplied a
  temperature, in percent, rounded: with three fulfilled sources, one temperature gives
  33, two give 67, three give 100; and for a fixed number of fulfilled sources the
  confidence does not decrease when more of them supply a temperature.
\<close>

theorem confidence_over_fulfilled_sources:
  assumes "srcs \<noteq> []"
  shows "\<exists>a. createAggregatedWeather srcs = Inr a \<and>
           confidence a =
             Fin (of_int (round (100 * real (suppliedTemperature srcs) / real (length srcs)))) \<and>
           (length srcs = 3 \<longrightarrow>
              (suppliedTemperature srcs = 1 \<longrightarrow> confidence a = Fin 33) \<and>
              (suppliedTemperature srcs = 2 \<longrightarrow> confidence a = Fin 67) \<and>
              (suppliedTemperature srcs = 3 \<longrightarrow> confidence a = Fin 100)) \<and>
           (\<forall>srcs'. length srcs' = length srcs \<and>
                    suppliedTemperature srcs \<le> suppliedTemperature srcs' \<longrightarrow>
              (\<exists>a' c c'. createAggregatedWeather srcs' = Inr a' \<and>
                 confidence a = Fin (of_int c) \<and> confidence a' = Fin (of_int c') \<and> c \<le> c'))"
proof -
  from createAggregatedWeather_confidence[OF assms] obtain a where
    a: "createAggregatedWeather srcs = Inr a"
       "confidence a =
          Fin (of_int (round (100 * real (suppliedTemperature srcs) / real (length srcs))))"
    by blast
  have ex: "length srcs = 3 \<longrightarrow>
              (suppliedTemperature srcs = 1 \<longrightarrow> confidence a = Fin 33) \<and>
              (suppliedTemperature srcs = 2 \<longrightarrow> confidence a = Fin 67) \<and>
              (suppliedTemperature srcs = 3 \<longrightarrow> confidence a = Fin 100)"
    using a(2) by (simp add: round_def)
  have mono: "\<exists>a' c c'. createAggregatedWeather srcs' = Inr a' \<and>
                 confidence a = Fin (of_int c) \<and> confidence a' = Fin (of_int c') \<and> c \<le> c'"
    if h: "length srcs' = length srcs \<and> suppliedTemperature srcs \<le> suppliedTemperature srcs'"
    for srcs'
  proof -
    from h assms have ne: "srcs' \<noteq> []" by auto
    from createAggregatedWeather_confidence[OF ne] obtain a' where
      a': "createAggregatedWeather srcs' = Inr a'"
          "confidence a' =
             Fin (of_int (round (100 * real (suppliedTemperature srcs') / real (length srcs'))))"
      by blast
    have "100 * real (suppliedTemperature srcs) / real (length srcs)
            \<le> 100 * real (suppliedTemperature srcs') / real (length srcs')"
      using h by (simp add: divide_right_mono)
    then have "round (100 * real (suppliedTemperature srcs) / real (length srcs))
            \<le> round (100 * real (suppliedTemperature srcs') / real (length srcs'))"
      by (rule round_mono)
    with a' a(2) show ?thesis by blast
  qed
  from a ex mono show ?thesis by blast
qed

theorem confidence_over_fulfilled_sources_witness:
  "\<exists>a. createAggregatedWeather
          [(''openweather'', sampleReading ''openweather'' (Num 20)),
           (''weatherapi'', sampleReading ''weatherapi'' Undefined),
           (''accuweather'', sampleReading ''accuweather'' (Num 22))] = Inr a \<and>
        confidence a = Fin 67"
  using confidence_over_fulfilled_sources
          [of "[(''openweather'', sampleReading ''openweather'' (Num 20)),
                (''weatherapi'', sampleReading ''weatherapi'' Undefined),
                (''accuweather'', sampleReading ''accuweather'' (Num 22))]"]
  by (auto simp add: suppliedTemperature_def sampleReading_def)

text \<open>
  Of three attempted sources one is fulfilled, with a temperature, and two are rejected:
  the confidence is 100, not \<open>round (100 \<times> 1 / 3) = 33\<close>.
\<close>

theorem confidence_ignores_rejected_sources:
  "\<exists>d. fst (fetchWeatherForLocation
               (sampleEnv (Inr (sampleReading ''openweather'' (Num 20)))
                          (Inl (Error ''timeout of 10000ms exceeded''))
                          (Inl (Error ''timeout of 10000ms exceeded'')) None)
               (ByObject newYork) ''2024-01-01T00:00:00.000Z'' emptyWorld) = Inr d \<and>
        confidence (aggregated d) = Fin 100 \<and>
        Fin 100 \<noteq> Fin (of_int (round (100 * real 1 / real 3)))"
  by (simp add: fetchWeatherForLocation_def fetchAndAggregate_def settleSources_def
      sampleEnv_def newYork_def emptyWorld_def say_def createAggregatedWeather_def
      storeWeatherData_def forEachBody_def initialSums_def sampleReading_def round_def Let_def)

subsection \<open>Averages\<close>

text \<open>The temperature is the mean of the temperatures supplied, to one decimal place.\<close>

lemma createAggregatedWeather_temperature:
  assumes "0 < suppliedTemperature srcs"
  shows "\<exists>a. createAggregatedWeather srcs = Inr a \<and>
     temperature a =
       Fin (of_int (round ((\<Sum>r\<leftarrow>map snd srcs. addIfDefined 0 (temperature r)) /
                           real (suppliedTemperature srcs) * 10)) / 10)"
proof -
  from assms have "srcs \<noteq> []" by (auto simp: suppliedTemperature_def)
  with assms show ?thesis
    by (simp add: createAggregatedWeather_def Let_def validSources_total tempSum_total)
qed

lemma temperature_example:
  "\<exists>a. createAggregatedWeather
          [(''openweather'', sampleReading ''openweather'' (Num 22.0)),
           (''weatherapi'', sampleReading ''weatherapi'' (Num 24.0)),
           (''accuweather'', sampleReading ''accuweather'' (Num 23.5))] = Inr a \<and>
        temperature a = Fin 23.2"
  by (simp add: createAggregatedWeather_def forEachBody_def initialSums_def sampleReading_def
      round_def Let_def)

text \<open>Every other sum is divided by the same count, that of the temperatures.\<close>

lemma createAggregatedWeather_visibility:
  assumes "srcs \<noteq> []"
  shows "\<exists>a. createAggregatedWeather srcs = Inr a \<and>
     visibility a =
       Math_round (jdiv (Fin (\<Sum>r\<leftarrow>map snd srcs. addIfDefined 0 (visibility r)))
                     (real (suppliedTemperature srcs)))"
  using assms
  by (simp add: createAggregatedWeather_def Let_def validSources_total visibilitySum_total
      del: jdiv.simps Math_round.simps)

text \<open>
  Claim C2, on two fulfilled sources of which the first has no \<open>visibility\<close>: the one
  visibility present is 10, and the aggregate's visibility is \<open>round (10 / 2) = 5\<close>, the
  sum over the values present divided by the number of temperatures.
\<close>

theorem visibility_divided_by_temperature_count:
  "\<exists>a. createAggregatedWeather
          [(''openweather'', (sampleReading ''openweather'' (Num 20))\<lparr>visibility := Undefined\<rparr>),
           (''weatherapi'', (sampleReading ''weatherapi'' (Num 22))\<lparr>visibility := Num 10\<rparr>)] = Inr a \<and>
        visibility a = Fin 5 \<and> temperature a = Fin 21"
  by (simp add: createAggregatedWeather_def forEachBody_def initialSums_def sampleReading_def
      round_def Let_def)

subsection \<open>No temperature at all\<close>

lemma Math_round_isFinite: "isFinite (Math_round x) = isFinite x"
  by (cases x) simp_all

lemma jmul_ten_isFinite: "isFinite (jmul x 10) = isFinite x"
  by (cases x) simp_all

lemma jdiv_ten_isFinite: "isFinite (jdiv x 10) = isFinite x"
  by (cases x) simp_all

lemma jdiv_zero_not_finite: "isFinite (jdiv (Fin x) 0) = False"
  by simp

lemma nan_temperature: "jdiv (Math_round (jmul (jdiv (Fin 0) 0) 10)) 10 = NaN"
  by simp

lemma zero_confidence: "0 < n \<Longrightarrow> Math_round (jmul (jdiv (Fin 0) (real n)) 100) = Fin 0"
  by simp

lemma sum_addIfDefined_none:
  "\<forall>r\<in>set rs. temperature r = Undefined \<Longrightarrow> (\<Sum>r\<leftarrow>rs. addIfDefined 0 (temperature r)) = 0"
  by (induction rs) simp_all

lemma tempSum_none:
  assumes "suppliedTemperature srcs = 0"
  shows "tempSum (foldl forEachBody initialSums (map snd srcs)) = 0"
proof -
  from assms have "\<forall>r\<in>set (map snd srcs). temperature r = Undefined"
    unfolding suppliedTemperature_def by (simp add: filter_empty_conv)
  then have "(\<Sum>r\<leftarrow>map snd srcs. addIfDefined 0 (temperature r)) = 0"
    by (rule sum_addIfDefined_none)
  then show ?thesis by (simp add: tempSum_total)
qed

text \<open>
  Claim C10, as the code has it. When some source is fulfilled and the temperature of
  every fulfilled source is \<open>undefined\<close>, \<open>createAggregatedWeather\<close> does not throw: the
  guard looks at the number of sources only. The temperature of the aggregate is \<open>NaN\<close>
  (\<open>0 / 0\<close>); every other average is a sum divided by the zero count, so \<open>NaN\<close> or an
  infinity; the confidence is \<open>0\<close>, the zero count divided by the number of sources.
\<close>

theorem no_temperature_no_error:
  assumes "srcs \<noteq> []" and "suppliedTemperature srcs = 0"
  shows "\<exists>a. createAggregatedWeather srcs = Inr a \<and>
           temperature a = NaN \<and> confidence a = Fin 0 \<and>
           \<not> isFinite (humidity a) \<and> \<not> isFinite (pressure a) \<and> \<not> isFinite (windSpeed a) \<and>
           \<not> isFinite (windDirection a) \<and> \<not> isFinite (visibility a) \<and>
           \<not> isFinite (cloudiness a)"
proof -
  from assms(1) have n: "0 < length srcs" by simp
  show ?thesis
    using assms(1)
    by (simp add: createAggregatedWeather_def Let_def validSources_total tempSum_none assms(2)
        Math_round_isFinite jmul_ten_isFinite jdiv_ten_isFinite jdiv_zero_not_finite
        nan_temperature zero_confidence[OF n]
        del: jdiv.simps jmul.simps Math_round.simps)
qed

theorem no_temperature_no_error_witness:
  "\<exists>a. createAggregatedWeather [(''openweather'', sampleReading ''openweather'' Undefined)] = Inr a \<and>
        temperature a = NaN \<and> confidence a = Fin 0 \<and> \<not> isFinite (humidity a)"
  using no_temperature_no_error [of "[(''openweather'', sampleReading ''openweather'' Undefined)]"]
  by (auto simp add: suppliedTemperature_def sampleReading_def)

text \<open>
  One fulfilled source without a temperature and with a humidity of 60: the confidence
  is the number \<open>0\<close> and the humidity is \<open>+\<infinity>\<close>; neither is \<open>NaN\<close>. One fulfilled
  source whose temperature is \<open>null\<close>: it supplies no temperature value, but \<open>null\<close> is
  not \<open>undefined\<close>, so it is counted and added as 0: the count is not zero, the
  temperature is 0 and the confidence is 100.
\<close>

theorem confidence_is_zero_not_nan:
  "(\<exists>a. createAggregatedWeather [(''openweather'', sampleReading ''openweather'' Undefined)] = Inr a \<and>
        confidence a = Fin 0 \<and> confidence a \<noteq> NaN \<and> humidity a = PosInf \<and> humidity a \<noteq> NaN) \<and>
   (\<exists>a. createAggregatedWeather [(''openweather'', sampleReading ''openweather'' Null)] = Inr a \<and>
        temperature a = Fin 0 \<and> confidence a = Fin 100)"
  by (simp add: createAggregatedWeather_def forEachBody_def initialSums_def sampleReading_def
      round_def Let_def)

section \<open>Fetching one location\<close>

lemma db_say: "db (say lv m w) = db w"
  by (simp add: say_def)

lemma processResult_fst:
  "fst p = fst p' \<Longrightarrow> fst (processResult key label r p) = fst (processResult key label r p')"
  by (cases r; cases p; cases p') simp_all

lemma processResult_db: "db (snd (processResult key label r p)) = db (snd p)"
  by (cases r; cases p) (simp_all add: say_def)

lemma settleSources_fst: "fst (settleSources e l w) = fst (settleSources e l w')"
  unfolding settleSources_def Let_def
  by (intro processResult_fst) simp

lemma settleSources_db: "db (snd (settleSources e l w)) = db w"
  by (simp add: settleSources_def Let_def processResult_db)

lemma settleSources_all_rejected:
  assumes "fetchOpenWeatherData e (lat l) (lon l) = Inl r1"
    and "fetchWeatherAPIData e (lat l) (lon l) = Inl r2"
    and "fetchAccuWeatherData e (lat l) (lon l) = Inl r3"
  shows "fst (settleSources e l w) = []"
  using assms by (simp add: settleSources_def)

lemma fetchWeatherForLocation_resolved:
  "resolved e location l \<Longrightarrow>
     fetchWeatherForLocation e location ts w =
       fetchAndAggregate e l ts (say LOG (''Fetching weather for '' @ nameOrLocation location) w)"
  by (cases location) (auto simp: resolved_def fetchWeatherForLocation_def Let_def)

subsection \<open>No source answers\<close>

lemma fetchAndAggregate_all_rejected:
  assumes "fetchOpenWeatherData e (lat l) (lon l) = Inl r1"
    and "fetchWeatherAPIData e (lat l) (lon l) = Inl r2"
    and "fetchAccuWeatherData e (lat l) (lon l) = Inl r3"
  shows "fst (fetchAndAggregate e l ts w) =
           Inl (Error ''No weather data available from any source'') \<and>
         db (snd (fetchAndAggregate e l ts w)) = db w"
  using settleSources_all_rejected[OF assms, of w] settleSources_db[of e l w]
  by (cases "settleSources e l w") (simp add: fetchAndAggregate_def createAggregatedWeather_def)

text \<open>
  Claim C9. With no source, \<open>createAggregatedWeather\<close> fails with its error and returns
  no aggregate; when all three source fetches of a location are rejected, the fetch of
  that location fails with that error, returns no aggregate and stores nothing.
\<close>

theorem no_reading_no_aggregate:
  assumes "resolved e location l"
    and "fetchOpenWeatherData e (lat l) (lon l) = Inl r1"
    and "fetchWeatherAPIData e (lat l) (lon l) = Inl r2"
    and "fetchAccuWeatherData e (lat l) (lon l) = Inl r3"
  shows "createAggregatedWeather [] = Inl (Error ''No weather data available from any source'') \<and>
         fst (fetchWeatherForLocation e location ts w) =
           Inl (Error ''No weather data available from any source'') \<and>
         db (snd (fetchWeatherForLocation e location ts w)) = db w"
  using fetchAndAggregate_all_rejected[OF assms(2-4), of ts
      "say LOG (''Fetching weather for '' @ nameOrLocation location) w"]
  by (simp add: fetchWeatherForLocation_resolved[OF assms(1)] db_say createAggregatedWeather_empty)

theorem no_reading_no_aggregate_witness:
  "fst (fetchWeatherForLocation
          (sampleEnv (Inl (Error ''timeout'')) (Inl (Error ''timeout'')) (Inl (Error ''timeout'')) None)
          (ByObject newYork) ''2024-01-01T00:00:00.000Z'' emptyWorld) =
     Inl (Error ''No weather data available from any source'') \<and>
   db (snd (fetchWeatherForLocation
          (sampleEnv (Inl (Error ''timeout'')) (Inl (Error ''timeout'')) (Inl (Error ''timeout'')) None)
          (ByObject newYork) ''2024-01-01T00:00:00.000Z'' emptyWorld)) = []"
  using no_reading_no_aggregate
          [of "sampleEnv (Inl (Error ''timeout'')) (Inl (Error ''timeout'')) (Inl (Error ''timeout'')) None"
              "ByObject newYork" newYork "Error ''timeout''" "Error ''timeout''" "Error ''timeout''"
              "''2024-01-01T00:00:00.000Z''" emptyWorld]
  by (simp add: resolved_def sampleEnv_def emptyWorld_def)

subsection \<open>The table rejects the write\<close>

lemma fetchAndAggregate_store_fails:
  assumes "createAggregatedWeather (fst (settleSources e l w)) = Inr agg"
    and "\<forall>i. dynamodb_put e i = Some err"
  shows "fst (fetchAndAggregate e l ts w) = Inl err"
    and "db (snd (fetchAndAggregate e l ts w)) = db w"
    and "(ERROR, ''DynamoDB storage failed: '' @ message err)
           \<in> set (console (snd (fetchAndAggregate e l ts w)))"
  using assms settleSources_db[of e l w]
  by (cases "settleSources e l w";
      simp add: fetchAndAggregate_def storeWeatherData_def Let_def say_def)+

lemma fetchAndAggregate_store_succeeds:
  assumes "createAggregatedWeather (fst (settleSources e l w)) = Inr agg"
    and "\<forall>i. dynamodb_put e i = None"
  shows "\<exists>d. fst (fetchAndAggregate e l ts w) = Inr d \<and> aggregated d = agg \<and>
           map weather_data (db (snd (fetchAndAggregate e l ts w))) = map weather_data (db w) @ [d]"
  using assms settleSources_db[of e l w]
  by (cases "settleSources e l w")
     (simp add: fetchAndAggregate_def storeWeatherData_def Let_def say_def)

text \<open>
  Claim C6, as the code has it. \<open>storeWeatherData\<close> logs the error of the write and throws
  it again, and \<open>fetchWeatherForLocation\<close> awaits it outside any \<open>try\<close>: when the fulfilled
  sources aggregate and the write fails, the fetch of the location fails with the error
  of the write, the error is on the console and nothing is stored; when the write
  succeeds, the fetch returns the aggregate and the table holds it.
\<close>

theorem store_failure_fails_fetch:
  assumes "resolved e location l"
    and "createAggregatedWeather (fst (settleSources e l w)) = Inr agg"
  shows "((\<forall>i. dynamodb_put e i = Some err) \<longrightarrow>
            fst (fetchWeatherForLocation e location ts w) = Inl err \<and>
            db (snd (fetchWeatherForLocation e location ts w)) = db w \<and>
            (ERROR, ''DynamoDB storage failed: '' @ message err)
               \<in> set (console (snd (fetchWeatherForLocation e location ts w)))) \<and>
         ((\<forall>i. dynamodb_put e i = None) \<longrightarrow>
            (\<exists>d. fst (fetchWeatherForLocation e location ts w) = Inr d \<and> aggregated d = agg \<and>
               map weather_data (db (snd (fetchWeatherForLocation e location ts w))) =
                 map weather_data (db w) @ [d]))"
proof -
  let ?w0 = "say LOG (''Fetching weather for '' @ nameOrLocation location) w"
  have agg: "createAggregatedWeather (fst (settleSources e l ?w0)) = Inr agg"
    using assms(2) settleSources_fst[of e l w ?w0] by simp
  show ?thesis
    using fetchAndAggregate_store_fails[OF agg, of err ts]
      fetchAndAggregate_store_succeeds[OF agg, of ts]
    by (simp add: fetchWeatherForLocation_resolved[OF assms(1)] db_say)
qed

theorem store_failure_fails_fetch_witness:
  "fst (fetchWeatherForLocation
          (sampleEnv (Inr (sampleReading ''openweather'' (Num 20))) (Inl (Error ''timeout''))
             (Inl (Error ''timeout'')) (Some (Error ''ProvisionedThroughputExceededException'')))
          (ByObject newYork) ''2024-01-01T00:00:00.000Z'' emptyWorld) =
     Inl (Error ''ProvisionedThroughputExceededException'') \<and>
   (\<exists>d. fst (fetchWeatherForLocation
          (sampleEnv (Inr (sampleReading ''openweather'' (Num 20))) (Inl (Error ''timeout''))
             (Inl (Error ''timeout'')) None)
          (ByObject newYork) ''2024-01-01T00:00:00.000Z'' emptyWorld) = Inr d \<and>
        map weather_data (db (snd (fetchWeatherForLocation
          (sampleEnv (Inr (sampleReading ''openweather'' (Num 20))) (Inl (Error ''timeout''))
             (Inl (Error ''timeout'')) None)
          (ByObject newYork) ''2024-01-01T00:00:00.000Z'' emptyWorld))) = [d])"
proof -
  let ?r = "Inr (sampleReading ''openweather'' (Num 20)) :: error + reading"
  let ?t = "Inl (Error ''timeout'') :: error + reading"
  let ?x = "Error ''ProvisionedThroughputExceededException''"
  have r: "resolved (sampleEnv ?r ?t ?t p) (ByObject newYork) newYork" for p
    by (simp add: resolved_def)
  have "\<exists>agg. createAggregatedWeather (fst (settleSources (sampleEnv ?r ?t ?t p) newYork emptyWorld))
          = Inr agg" for p
    by (simp add: settleSources_def sampleEnv_def createAggregatedWeather_def Let_def)
  then obtain agg where
    a: "createAggregatedWeather (fst (settleSources (sampleEnv ?r ?t ?t p) newYork emptyWorld))
          = Inr (agg p)" for p
    by metis
  have p1: "\<forall>i. dynamodb_put (sampleEnv ?r ?t ?t (Some ?x)) i = Some ?x"
    and p2: "\<forall>i. dynamodb_put (sampleEnv ?r ?t ?t None) i = None"
    by (simp_all add: sampleEnv_def)
  from store_failure_fails_fetch[OF r a, of "Some ?x" ?x "''2024-01-01T00:00:00.000Z''"] p1
  have "fst (fetchWeatherForLocation (sampleEnv ?r ?t ?t (Some ?x)) (ByObject newYork)
               ''2024-01-01T00:00:00.000Z'' emptyWorld) = Inl ?x"
    by blast
  moreover
  from store_failure_fails_fetch[OF r a, of None ?x "''2024-01-01T00:00:00.000Z''"] p2
  have "\<exists>d. fst (fetchWeatherForLocation (sampleEnv ?r ?t ?t None) (ByObject newYork)
                   ''2024-01-01T00:00:00.000Z'' emptyWorld) = Inr d \<and>
             map weather_data (db (snd (fetchWeatherForLocation (sampleEnv ?r ?t ?t None)
                   (ByObject newYork) ''2024-01-01T00:00:00.000Z'' emptyWorld))) = [d]"
    by (auto simp: emptyWorld_def)
  ultimately show ?thesis by blast
qed

text \<open>One source is fulfilled and aggregates; the table rejects the write; the fetch of
  the location is rejected with the table's error, and returns no aggregate.\<close>

theorem store_failure_is_not_swallowed:
  "(\<exists>a. createAggregatedWeather
           [(''openweather'', sampleReading ''openweather'' (Num 20))] = Inr a) \<and>
   fst (fetchWeatherForLocation
          (sampleEnv (Inr (sampleReading ''openweather'' (Num 20))) (Inl (Error ''timeout''))
             (Inl (Error ''timeout'')) (Some (Error ''ProvisionedThroughputExceededException'')))
          (ByObject newYork) ''2024-01-01T00:00:00.000Z'' emptyWorld) =
     Inl (Error ''ProvisionedThroughputExceededException'')"
  by (simp add: fetchWeatherForLocation_def fetchAndAggregate_def settleSources_def
      sampleEnv_def newYork_def emptyWorld_def say_def createAggregatedWeather_def
      storeWeatherData_def Let_def)

section \<open>The cross-cloud calculators\<close>



lemma foldl_update:
  "foldl (\<lambda>ob m. if P m then ob(m := f m) else ob) init ms k =
     (if k \<in> set ms \<and> P k then f k else init k)"
  by (induction ms arbitrary: init) auto


subsection \<open>Agreement\<close>

text \<open>With at most one temperature that is not \<open>undefined\<close> the agreement is 100.\<close>

lemma calculateAgreement_few: "length (tempValues dps) \<le> 1 \<Longrightarrow> calculateAgreement dps = 100"
  by (simp add: calculateAgreement_def Let_def)

text \<open>The temperatures 20, 20, 20 give 100, the temperatures 18, 20, 22 give 0 and the
  temperatures 19, 20, 21 give 50.\<close>

lemma agreement_examples:
  "calculateAgreement [tempPoint 20, tempPoint 20, tempPoint 20] = 100"
  "calculateAgreement [tempPoint 18, tempPoint 20, tempPoint 22] = 0"
  "calculateAgreement [tempPoint 19, tempPoint 20, tempPoint 21] = 50"
  by (simp_all add: calculateAgreement_def tempValues_def tempPoint_def Let_def)

text \<open>
  Claim C4, on two providers for one location of which the first reports the temperature
  \<open>null\<close> (the JSON of a \<open>NaN\<close>) and the second 20 degrees. One temperature value is
  present: \<open>calculateConsensus\<close>, which drops \<open>undefined\<close> and \<open>null\<close>, averages the one
  value 20. \<open>calculateAgreement\<close> drops \<open>undefined\<close> only, reads the \<open>null\<close> as 0 and
  finds a range of 20 degrees: the agreement is 0, where a single temperature value gives
  100.
\<close>

theorem null_temperature_counts_as_zero_degrees:
  "calculateAgreement [nullTemperature, tempPoint 20] = 0 \<and>
   tempValues [nullTemperature, tempPoint 20] = [0, 20] \<and>
   metricValues [nullTemperature, tempPoint 20] ''temperature'' = [20] \<and>
   calculateConsensus [nullTemperature, tempPoint 20] ''temperature'' = Num 20"
proof -
  have t: "tempValues [nullTemperature, tempPoint 20] = [0, 20]"
    by (simp add: tempValues_def nullTemperature_def tempPoint_def emptyObject_def)
  have m: "metricValues [nullTemperature, tempPoint 20] ''temperature'' = [20]"
    by (simp add: metricValues_def nullTemperature_def tempPoint_def emptyObject_def)
  have "calculateAgreement [nullTemperature, tempPoint 20] = 0"
    by (simp add: calculateAgreement_def t Let_def)
  moreover have "calculateConsensus [nullTemperature, tempPoint 20] ''temperature'' = Num 20"
    unfolding calculateConsensus_def Let_def
    by (simp add: foldl_update m metrics_def emptyObject_def)
  ultimately show ?thesis using t m by simp
qed

subsection \<open>Reliability\<close>

lemma calculateReliability_overall:
  "overall (calculateReliability dps n) =
     round ((dataAvailability (calculateReliability dps n) +
             (case temperatureAgreement (calculateReliability dps n) of
                None \<Rightarrow> 100
              | Some t \<Rightarrow> if t = 0 then 100 else t)) / 2)"
  by (simp add: calculateReliability_def Let_def split: option.splits)

text \<open>
  Claim C5, on two providers of two that report 18 and 22 degrees. The temperature
  agreement is computed, and is 0; \<open>0 || 100\<close> is 100, so the overall reliability is
  \<open>round ((100 + 100) / 2) = 100\<close>, where the mean with the computed value is
  \<open>round ((100 + 0) / 2) = 50\<close>.
\<close>

theorem zero_agreement_counts_as_100:
  "calculateReliability [tempPoint 18, tempPoint 22] 2 =
     \<lparr> dataAvailability = 100, temperatureAgreement = Some 0, overall = 100 \<rparr> \<and>
   round ((100 + 0) / 2 :: real) = 50"
  by (simp add: calculateReliability_def tempValues_def tempPoint_def Let_def round_def)

text \<open>A computed agreement other than 0 is the one averaged.\<close>

lemma nonzero_agreement_is_averaged:
  "calculateReliability [tempPoint 19, tempPoint 21] 2 =
     \<lparr> dataAvailability = 100, temperatureAgreement = Some 50, overall = 75 \<rparr>"
  by (simp add: calculateReliability_def tempValues_def tempPoint_def Let_def round_def)

subsection \<open>Variation\<close>







subsection \<open>Freshness\<close>

lemma the_filter_Some:
  "map the (filter (\<lambda>d. d \<noteq> None) (map f xs)) =
     concat (map (\<lambda>x. case f x of None \<Rightarrow> [] | Some t \<Rightarrow> [t]) xs)"
  by (induction xs) (auto split: option.splits)

lemma timestamps_parsable:
  "map the (filter (\<lambda>date. date \<noteq> None)
              (map (\<lambda>provider. newDate parse (entry_timestamp provider)) (map snd cloudData))) =
     parsableTimestamps parse cloudData"
  unfolding parsableTimestamps_def by (rule the_filter_Some)

lemma foldl_age:
  "foldl (\<lambda>sum timestamp. sum + (now - timestamp)) a ts = a + (\<Sum>t\<leftarrow>ts. now - t)" for a :: int
  by (induction ts arbitrary: a) simp_all

lemma round_less_iff: "round (x::real) < k \<longleftrightarrow> x < of_int k - 1/2"
  by (simp add: round_def floor_less_iff) linarith

lemma calculateDataFreshness_rounded:
  "calculateDataFreshness parse now cloudData =
     (if parsableTimestamps parse cloudData = [] then ''unknown''
      else if round (averageAgeMinutes parse now cloudData) < 5 then ''very-fresh''
      else if round (averageAgeMinutes parse now cloudData) < 15 then ''fresh''
      else if round (averageAgeMinutes parse now cloudData) < 60 then ''moderate''
      else ''stale'')"
  unfolding calculateDataFreshness_def timestamps_parsable Let_def averageAgeMinutes_def foldl_age
  by simp

text \<open>
  Claim C8, as the code has it. The classification goes by the average age in minutes
  rounded to the nearest integer (a half up): the rounded value below 5 is very fresh,
  below 15 fresh, below 60 moderate, stale otherwise, so that the average age itself is
  compared with 4.5, 14.5 and 59.5 minutes; without a timestamp that parses the
  classification is unknown.
\<close>

theorem freshness_by_rounded_minutes:
  "calculateDataFreshness parse now cloudData =
     (if parsableTimestamps parse cloudData = [] then ''unknown''
      else if round (averageAgeMinutes parse now cloudData) < 5 then ''very-fresh''
      else if round (averageAgeMinutes parse now cloudData) < 15 then ''fresh''
      else if round (averageAgeMinutes parse now cloudData) < 60 then ''moderate''
      else ''stale'') \<and>
   calculateDataFreshness parse now cloudData =
     (if parsableTimestamps parse cloudData = [] then ''unknown''
      else if averageAgeMinutes parse now cloudData < 4.5 then ''very-fresh''
      else if averageAgeMinutes parse now cloudData < 14.5 then ''fresh''
      else if averageAgeMinutes parse now cloudData < 59.5 then ''moderate''
      else ''stale'')"
  by (simp add: calculateDataFreshness_rounded round_less_iff)

text \<open>One provider, observed four and a half minutes ago: the average age is below five
  minutes and the classification is fresh, not very fresh.\<close>

theorem four_and_a_half_minutes_is_fresh:
  "averageAgeMinutes sampleParse (1704067200000 + 270000)
     [(''aws'', sampleEntry (Some ''2024-01-01T00:00:00.000Z''))] < 5 \<and>
   calculateDataFreshness sampleParse (1704067200000 + 270000)
     [(''aws'', sampleEntry (Some ''2024-01-01T00:00:00.000Z''))] = ''fresh''"
  by (simp add: calculateDataFreshness_def averageAgeMinutes_def parsableTimestamps_def
      sampleParse_def sampleEntry_def Let_def round_def)

section \<open>All providers fail\<close>


text \<open>Keys that are array indices come first, in numeric order.\<close>

lemma Object_keys_example:
  "Object_keys [(''gcp'', 1::nat), (''10'', 2), (''2'', 3), (''01'', 4), (''aws'', 5)] =
     [''2'', ''10'', ''gcp'', ''01'', ''aws'']"
  by (simp add: Object_keys_def ownEntries_def isArrayIndex_def isDigit_def indexValue_def)

text \<open>A location whose key names a property of \<open>Object.prototype\<close> ends the
  aggregation with a \<open>TypeError\<close>.\<close>

lemma addProvider_prototype_key:
  "addProvider ''constructor'' item prov agg locationData = Inl pushOfUndefined"
  by (simp add: addProvider_def prototypeKeys_def)




text \<open>A body that is JSON but not an object is answered with the defaults, not with the
  placeholder.\<close>

lemma GET_other_json:
  "GET \<lparr> AGGREGATION_LAMBDA_URL = Some ''https://aggregation.example/'',
         fetched = Resolved 200 JsonOther, nowISO = ''2024-01-01T00:05:01.000Z'' \<rparr>
       (Some ''New York'') =
     (200, \<lparr> rb_error = None, rb_aggregatedData = Some (LocationsOnly []),
             rb_cloudProviders = Some [], rb_executionTimeMs = Some 0,
             rb_timestamp = Some ''2024-01-01T00:05:01.000Z'' \<rparr>)"
  by (simp add: GET_def ok_def relay_def noProperties_def)



end
